theory Spec2Isabelle
  imports Complex_Main
begin

section \<open>Typing practice: a shallow embedding of \<^verbatim>\<open>typing_practice.py\<close>\<close>

text \<open>
  The program shows a random word of a word list with its translation, reads a line of
  input, compares it with the word and reports the typing speed. It has two front ends,
  the window \<^verbatim>\<open>MyWindow\<close> and the loop \<^verbatim>\<open>terminal_typing_practice\<close>.

  Everything the program takes from outside is an explicit argument of the model:
  the file system, the web (what \<^verbatim>\<open>requests.get\<close> and the HTML parser deliver for a
  URL), and for every round the typed text, the readings of \<^verbatim>\<open>time.time()\<close> and the
  raw draw of the random generator. Exceptions are values of \<open>py_error\<close>.

  A Python \<^verbatim>\<open>str\<close> is a \<open>string\<close>; a \<open>char\<close> stands for a code point below 256.
  Time stamps and speeds (Python floats) are real numbers, and the rendering of a number
  inside an f-string is not modelled: a formatted text is a value of \<open>fstring\<close> that keeps
  the interpolated values. The farewell line of the terminal loop nests its own quote
  character inside an f-string, which Python accepts from version 3.12 on; the model is
  the program as such a version runs it.
\<close>

subsection \<open>Exceptions\<close>

datatype py_error =
    ValueError
  | IndexError
  | ZeroDivisionError
  | RequestException
  | IOError
  | UnicodeDecodeError
  | EOFError

subsection \<open>Strings: \<^verbatim>\<open>str.strip()\<close>\<close>

definition LF :: char where
  "LF = CHR 0x0A"

definition CR :: char where
  "CR = CHR 0x0D"

text \<open>The code points below 256 for which \<^verbatim>\<open>str.isspace\<close> holds.\<close>

definition whitespace :: "char list" where
  "whitespace =
     [CHR 0x09, CHR 0x0A, CHR 0x0B, CHR 0x0C, CHR 0x0D,
      CHR 0x1C, CHR 0x1D, CHR 0x1E, CHR 0x1F, CHR 0x20, CHR 0x85, CHR 0xA0]"

definition isspace :: "char \<Rightarrow> bool" where
  "isspace c = (c \<in> set whitespace)"

definition lstrip :: "string \<Rightarrow> string" where
  "lstrip s = dropWhile isspace s"

definition rstrip :: "string \<Rightarrow> string" where
  "rstrip s = rev (dropWhile isspace (rev s))"

definition strip :: "string \<Rightarrow> string" where
  "strip s = rstrip (lstrip s)"

subsection \<open>The word source: \<^verbatim>\<open>read_file\<close>\<close>

text \<open>
  A file that can be opened holds either text (its decoded characters, as stored) or
  bytes that are not UTF-8. \<^verbatim>\<open>open(file, 'r', encoding='utf8')\<close> reads in universal
  newlines mode: \<^verbatim>\<open>\r\n\<close> and a lone \<^verbatim>\<open>\r\<close> arrive as \<^verbatim>\<open>\n\<close>. \<^verbatim>\<open>readlines\<close> cuts
  the translated text after every \<^verbatim>\<open>\n\<close>.
\<close>

datatype stored = Text_file string | Not_utf8

type_synonym file_system = "string \<Rightarrow> stored option"

fun universal_newlines :: "string \<Rightarrow> string" where
  "universal_newlines [] = []"
| "universal_newlines [c] = (if c = CR then [LF] else [c])"
| "universal_newlines (c # d # ds) =
     (if c = CR \<and> d = LF then LF # universal_newlines ds
      else if c = CR then LF # universal_newlines (d # ds)
      else c # universal_newlines (d # ds))"

fun readlines :: "string \<Rightarrow> string list" where
  "readlines [] = []"
| "readlines (c # cs) =
     (if c = LF then [c] # readlines cs
      else (case readlines cs of [] \<Rightarrow> [[c]] | l # ls \<Rightarrow> (c # l) # ls))"

definition read_file :: "file_system \<Rightarrow> string \<Rightarrow> py_error + string list" where
  "read_file fs path =
     (case fs path of
        None \<Rightarrow> Inl IOError
      | Some Not_utf8 \<Rightarrow> Inl UnicodeDecodeError
      | Some (Text_file s) \<Rightarrow> Inr (readlines (universal_newlines s)))"

subsection \<open>Drawing a word: \<^verbatim>\<open>str(random.sample(words, 1)[0].strip())\<close>\<close>

text \<open>
  \<^verbatim>\<open>random.sample(population, k)\<close> raises \<^verbatim>\<open>ValueError\<close> unless \<open>0 \<le> k \<le> len(population)\<close>.
  For \<open>k = 1\<close> it returns a list with one element of the population; \<open>r\<close> is the raw
  draw of the generator, so every index can be chosen.
\<close>

definition sample_one :: "'a list \<Rightarrow> nat \<Rightarrow> py_error + 'a list" where
  "sample_one population r =
     (if 1 \<le> length population then Inr [population ! (r mod length population)]
      else Inl ValueError)"

definition item0 :: "'a list \<Rightarrow> py_error + 'a" where
  "item0 xs = (case xs of [] \<Rightarrow> Inl IndexError | x # _ \<Rightarrow> Inr x)"

definition draw_word :: "string list \<Rightarrow> nat \<Rightarrow> py_error + string" where
  "draw_word words r =
     (case sample_one words r of
        Inl e \<Rightarrow> Inl e
      | Inr xs \<Rightarrow> (case item0 xs of Inl e \<Rightarrow> Inl e | Inr x \<Rightarrow> Inr (strip x)))"

subsection \<open>The translation fetcher: \<^verbatim>\<open>crawl_translation\<close>\<close>

text \<open>
  A parsed page is a list of nodes, as the tree builder of \<^verbatim>\<open>html.parser\<close> leaves them:
  strings, each of one of the string classes of Beautiful Soup, and tags with their name,
  their classes and their children. A comment has the class \<^verbatim>\<open>Comment\<close>; ordinary text
  has the class \<^verbatim>\<open>NavigableString\<close>, except below a tag that is a string container
  (\<^verbatim>\<open>script\<close>, \<^verbatim>\<open>style\<close>, \<^verbatim>\<open>template\<close>, \<^verbatim>\<open>rt\<close>, \<^verbatim>\<open>rp\<close>), where it has the class of the
  container.
\<close>

datatype string_class =
    NavigableString
  | CData
  | Comment
  | Declaration
  | Doctype
  | ProcessingInstruction
  | Script
  | Stylesheet
  | TemplateString
  | RubyTextString
  | RubyParenthesisString

datatype node = Str string_class string | Tag string "string list" "node list"

text \<open>
  \<open>find_first c\<close> is \<^verbatim>\<open>soup.find(class_=c)\<close>, the first tag in document order that has
  the class. A tag is truthy whatever it contains, so \<^verbatim>\<open>if target_class:\<close> asks whether
  a tag was found.
\<close>

fun find_in :: "string \<Rightarrow> node \<Rightarrow> node option"
  and find_first :: "string \<Rightarrow> node list \<Rightarrow> node option" where
  "find_in c (Str k s) = None"
| "find_in c (Tag name cs kids) =
     (if c \<in> set cs then Some (Tag name cs kids) else find_first c kids)"
| "find_first c [] = None"
| "find_first c (n # ns) =
     (case find_in c n of Some t \<Rightarrow> Some t | None \<Rightarrow> find_first c ns)"

text \<open>
  \<open>get_text\<close> is \<^verbatim>\<open>.text\<close> (Beautiful Soup from version 4.11 on): the strings below the
  tag whose class is exactly one of the interesting string types of the tag, joined
  without a separator. The interesting types of a string container are its own string
  class, those of any other tag are \<^verbatim>\<open>NavigableString\<close> and \<^verbatim>\<open>CData\<close>: comments,
  declarations and the text of scripts, styles, templates and ruby annotations inside an
  ordinary tag are left out. The \<^verbatim>\<open>.text\<close> of a string is the string itself when its
  class is one of the two default types, and empty otherwise.
\<close>

definition string_containers :: "string \<Rightarrow> string_class option" where
  "string_containers name =
     (if name = ''rt'' then Some RubyTextString
      else if name = ''rp'' then Some RubyParenthesisString
      else if name = ''style'' then Some Stylesheet
      else if name = ''script'' then Some Script
      else if name = ''template'' then Some TemplateString
      else None)"

definition interesting_string_types :: "string \<Rightarrow> string_class list" where
  "interesting_string_types name =
     (case string_containers name of
        Some k \<Rightarrow> [k]
      | None \<Rightarrow> [NavigableString, CData])"

fun all_strings :: "string_class list \<Rightarrow> node \<Rightarrow> string list" where
  "all_strings types (Str k s) = (if k \<in> set types then [s] else [])"
| "all_strings types (Tag name cs kids) = concat (map (all_strings types) kids)"

fun get_text :: "node \<Rightarrow> string" where
  "get_text (Str k s) = concat (all_strings [NavigableString, CData] (Str k s))"
| "get_text (Tag name cs kids) =
     concat (all_strings (interesting_string_types name) (Tag name cs kids))"

text \<open>
  The tags and strings of a page in document order, whether a node is a tag with a
  given class, and what a node adds to a text made of the strings of given classes:
  what \<open>find_first\<close> and \<open>get_text\<close> are measured against.
\<close>

fun has_class :: "string \<Rightarrow> node \<Rightarrow> bool" where
  "has_class c (Str k s) = False"
| "has_class c (Tag name cs kids) = (c \<in> set cs)"

fun nodes_of :: "node \<Rightarrow> node list" where
  "nodes_of (Str k s) = [Str k s]"
| "nodes_of (Tag name cs kids) = Tag name cs kids # concat (map nodes_of kids)"

definition document_order :: "node list \<Rightarrow> node list" where
  "document_order soup = concat (map nodes_of soup)"

fun string_in :: "string_class list \<Rightarrow> node \<Rightarrow> string" where
  "string_in types (Str k s) = (if k \<in> set types then s else [])"
| "string_in types (Tag name cs kids) = []"

text \<open>
  The web: for a URL, either the exception of \<^verbatim>\<open>requests.get\<close> or the parsed body of
  the response (whatever its status code).
\<close>

type_synonym web = "string \<Rightarrow> py_error + node list"

definition sentinel :: string where
  "sentinel = ''No translation found.''"

definition url_cand :: "string \<Rightarrow> string list" where
  "url_cand word =
     [''https://dictionary.cambridge.org/zht/%E8%A9%9E%E5%85%B8/%E8%8B%B1%E8%AA%9E-%E6%BC%A2%E8%AA%9E-%E7%B9%81%E9%AB%94/'' @ word]"

text \<open>
  The \<^verbatim>\<open>for\<close> loop over \<open>url_cand\<close>; its body returns in both branches, and a loop that
  ends without returning would give \<^verbatim>\<open>None\<close>.
\<close>

fun crawl_loop :: "web \<Rightarrow> string list \<Rightarrow> py_error + string option" where
  "crawl_loop http [] = Inr None"
| "crawl_loop http (url # urls) =
     (case http url of
        Inl e \<Rightarrow> Inl e
      | Inr soup \<Rightarrow>
          (case find_first ''dtrans'' soup of
             Some target_class \<Rightarrow> Inr (Some (get_text target_class))
           | None \<Rightarrow> Inr (Some sentinel)))"

definition crawl_translation :: "web \<Rightarrow> string \<Rightarrow> py_error + string option" where
  "crawl_translation http word = crawl_loop http (url_cand word)"

text \<open>What an f-string shows for a value that is a string or \<^verbatim>\<open>None\<close>.\<close>

definition py_str :: "string option \<Rightarrow> string" where
  "py_str v = (case v of None \<Rightarrow> ''None'' | Some s \<Rightarrow> s)"

subsection \<open>Session state and what is shown\<close>

text \<open>
  \<open>Shown w t\<close> is \<^verbatim>\<open>f'{w}  -  {t}'\<close>, \<open>Correct v\<close> is \<^verbatim>\<open>f'correct! {v:.2f} char/s'\<close>,
  \<open>Practiced n s\<close> is \<^verbatim>\<open>f'Practiced {n} word{s}!'\<close>, \<open>Wrong\<close> is \<^verbatim>\<open>'wrong!'\<close>.
\<close>

datatype fstring = Blank | Shown string string | Correct real | Practiced int string | Wrong

datatype line = Plain fstring | Colored fstring string

definition plural :: "int \<Rightarrow> string" where
  "plural n = (if n > 1 then ''s'' else '''')"

text \<open>
  The variables both front ends keep: \<open>cur_word\<close> is \<^verbatim>\<open>self.cur_word\<close> in the window and
  \<^verbatim>\<open>rand_word\<close> in the terminal loop. \<open>stdout\<close> collects what is printed.
\<close>

record session =
  words :: "string list"
  succ_cnt :: int
  cur_word :: string
  stdout :: "line list"

record window = session +
  start_time :: real
  inputbox :: string
  question :: fstring
  result :: fstring
  result_style :: string

text \<open>
  One round of input: the typed text, the raw draw of the random generator, and the
  first and second reading of \<^verbatim>\<open>time.time()\<close> made while the round is handled.
\<close>

record event =
  typed :: string
  pick :: nat
  time1 :: real
  time2 :: real

datatype 's outcome = Next 's | Exited 's | Raised py_error

subsection \<open>The window: \<^verbatim>\<open>MyWindow\<close>\<close>

text \<open>
  \<^verbatim>\<open>fetch_word\<close> returns the word drawn, the text it puts into the question label and
  the start time it sets.
\<close>

definition fetch_word :: "web \<Rightarrow> string list \<Rightarrow> nat \<Rightarrow> real \<Rightarrow> py_error + string \<times> fstring \<times> real" where
  "fetch_word http ws r now =
     (case draw_word ws r of
        Inl e \<Rightarrow> Inl e
      | Inr rand_word \<Rightarrow>
          (case crawl_translation http rand_word of
             Inl e \<Rightarrow> Inl e
           | Inr tr \<Rightarrow> Inr (rand_word, Shown rand_word (py_str tr), now)))"

definition MyWindow :: "web \<Rightarrow> string list \<Rightarrow> nat \<Rightarrow> real \<Rightarrow> py_error + window" where
  "MyWindow http ws r now =
     (case fetch_word http ws r now of
        Inl e \<Rightarrow> Inl e
      | Inr (w, q, t) \<Rightarrow>
          Inr \<lparr>words = ws, succ_cnt = 0, cur_word = w, stdout = [],
               start_time = t, inputbox = '''', question = q, result = Blank,
               result_style = ''''\<rparr>)"

text \<open>
  \<^verbatim>\<open>enter_text\<close>, the handler of Return. The division by the elapsed time raises
  \<^verbatim>\<open>ZeroDivisionError\<close> when the two times are equal; an exception that leaves the handler
  ends the program.
\<close>

definition enter_text :: "web \<Rightarrow> window \<Rightarrow> event \<Rightarrow> window outcome" where
  "enter_text http self ev =
     (let answer = strip (inputbox self);
          self = self\<lparr>inputbox := ''''\<rparr>
      in if answer = cur_word self then
           (let self = self\<lparr>succ_cnt := succ_cnt self + 1, result_style := ''color: green''\<rparr>
            in if time1 ev - start_time self = 0 then Raised ZeroDivisionError
               else
                 (let self = self\<lparr>result :=
                        Correct (real (length (cur_word self)) / (time1 ev - start_time self))\<rparr>
                  in case fetch_word http (words self) (pick ev) (time2 ev) of
                       Inl e \<Rightarrow> Raised e
                     | Inr (w, q, t) \<Rightarrow>
                         Next (self\<lparr>question := q, start_time := t, cur_word := w\<rparr>)))
         else if answer = ''finish practice'' then
           Exited (self\<lparr>result_style := ''color: yellow'',
                        stdout := stdout self @
                          [Plain (Practiced (succ_cnt self) (plural (succ_cnt self)))]\<rparr>)
         else
           Next (self\<lparr>result_style := ''color: red'', result := Wrong,
                      start_time := time1 ev\<rparr>))"

text \<open>The user types a text into the input box and presses Return.\<close>

definition gui_input :: "web \<Rightarrow> window \<Rightarrow> event \<Rightarrow> window outcome" where
  "gui_input http self ev = enter_text http (self\<lparr>inputbox := typed ev\<rparr>) ev"

fun gui_run :: "web \<Rightarrow> window \<Rightarrow> event list \<Rightarrow> window outcome" where
  "gui_run http self [] = Next self"
| "gui_run http self (ev # evs) =
     (case gui_input http self ev of
        Next self' \<Rightarrow> gui_run http self' evs
      | Exited self' \<Rightarrow> Exited self'
      | Raised e \<Rightarrow> Raised e)"

subsection \<open>The terminal loop: \<^verbatim>\<open>terminal_typing_practice\<close>\<close>

text \<open>
  The body of \<^verbatim>\<open>while True\<close>. \<^verbatim>\<open>start_time\<close> and \<^verbatim>\<open>input_word\<close> are assigned in every
  iteration before they are read, so they are local to the iteration. \<^verbatim>\<open>exit()\<close> ends
  the program.
\<close>

definition terminal_iteration :: "web \<Rightarrow> session \<Rightarrow> event \<Rightarrow> session outcome" where
  "terminal_iteration http s ev =
     (case crawl_translation http (cur_word s) of
        Inl e \<Rightarrow> Raised e
      | Inr tr \<Rightarrow>
          (let s = s\<lparr>stdout := stdout s @ [Colored (Shown (cur_word s) (py_str tr)) ''blue'']\<rparr>;
               start_time = time1 ev;
               input_word = typed ev
           in if input_word = ''finish practice'' then
                Exited (s\<lparr>stdout := stdout s @
                  [Colored (Practiced (succ_cnt s) (plural (succ_cnt s))) ''yellow'']\<rparr>)
              else if input_word = cur_word s then
                (if time2 ev - start_time = 0 then Raised ZeroDivisionError
                 else
                   (let s = s\<lparr>stdout := stdout s @
                          [Colored (Correct (real (length (cur_word s)) / (time2 ev - start_time)))
                             ''green'']\<rparr>;
                        s = s\<lparr>succ_cnt := succ_cnt s + 1\<rparr>
                    in case draw_word (words s) (pick ev) of
                         Inl e \<Rightarrow> Raised e
                       | Inr w \<Rightarrow> Next (s\<lparr>cur_word := w\<rparr>)))
              else Next (s\<lparr>stdout := stdout s @ [Colored Wrong ''red'']\<rparr>)))"

fun terminal_run :: "web \<Rightarrow> session \<Rightarrow> event list \<Rightarrow> session outcome" where
  "terminal_run http s [] = Next s"
| "terminal_run http s (ev # evs) =
     (case terminal_iteration http s ev of
        Next s' \<Rightarrow> terminal_run http s' evs
      | Exited s' \<Rightarrow> Exited s'
      | Raised e \<Rightarrow> Raised e)"

text \<open>The statements before the loop.\<close>

definition terminal_start :: "string list \<Rightarrow> nat \<Rightarrow> py_error + session" where
  "terminal_start ws r =
     (case draw_word ws r of
        Inl e \<Rightarrow> Inl e
      | Inr rand_word \<Rightarrow> Inr \<lparr>words = ws, succ_cnt = 0, cur_word = rand_word, stdout = []\<rparr>)"

text \<open>
  The whole function on the lines that standard input holds; when they are used up, the
  next iteration prints the word and \<^verbatim>\<open>input()\<close> raises \<^verbatim>\<open>EOFError\<close>. The function never
  returns: it exits or raises.
\<close>

definition terminal_typing_practice ::
  "web \<Rightarrow> string list \<Rightarrow> nat \<Rightarrow> event list \<Rightarrow> session outcome" where
  "terminal_typing_practice http ws r evs =
     (case terminal_start ws r of
        Inl e \<Rightarrow> Raised e
      | Inr s \<Rightarrow>
          (case terminal_run http s evs of
             Next s' \<Rightarrow>
               (case crawl_translation http (cur_word s') of
                  Inl e \<Rightarrow> Raised e
                | Inr tr \<Rightarrow> Raised EOFError)
           | Exited s' \<Rightarrow> Exited s'
           | Raised e \<Rightarrow> Raised e))"

text \<open>
  The lines of the main block that run the window: \<^verbatim>\<open>window = MyWindow(words)\<close> and
  the event loop, which calls \<^verbatim>\<open>enter_text\<close> for every Return until the window closes.
\<close>

definition gui_session ::
  "web \<Rightarrow> string list \<Rightarrow> nat \<Rightarrow> real \<Rightarrow> event list \<Rightarrow> window outcome" where
  "gui_session http ws r now evs =
     (case MyWindow http ws r now of
        Inl e \<Rightarrow> Raised e
      | Inr window \<Rightarrow> gui_run http window evs)"

text \<open>The words that the printed lines have presented, in order.\<close>

fun presented :: "line list \<Rightarrow> string list" where
  "presented [] = []"
| "presented (Colored (Shown w tr) c # out) = w # presented out"
| "presented (l # out) = presented out"

section \<open>Properties\<close>

subsection \<open>Stripping\<close>

lemma rstrip_idem: "rstrip (rstrip s) = rstrip s"
  by (simp add: rstrip_def)

lemma lstrip_id: "s = [] \<or> \<not> isspace (hd s) \<Longrightarrow> lstrip s = s"
  by (cases s) (auto simp: lstrip_def)

lemma lstrip_head: "lstrip s = [] \<or> \<not> isspace (hd (lstrip s))"
  unfolding lstrip_def by (metis hd_dropWhile)

lemma rstrip_prefix: "s = rstrip s @ rev (takeWhile isspace (rev s))"
proof -
  have "rev (rstrip s @ rev (takeWhile isspace (rev s))) = rev s"
    by (simp add: rstrip_def)
  then show ?thesis
    by (simp only: rev_is_rev_conv)
qed

lemma lstrip_rstrip: "s = [] \<or> \<not> isspace (hd s) \<Longrightarrow> lstrip (rstrip s) = rstrip s"
proof (cases "rstrip s = []")
  case True
  then show ?thesis by (simp add: lstrip_def)
next
  case False
  assume h: "s = [] \<or> \<not> isspace (hd s)"
  from False have "hd s = hd (rstrip s)"
    by (metis rstrip_prefix hd_append2)
  moreover from False have "s \<noteq> []"
    by (auto simp: rstrip_def)
  ultimately have "\<not> isspace (hd (rstrip s))"
    using h by simp
  then show ?thesis
    by (simp add: lstrip_id)
qed

lemma strip_idem: "strip (strip s) = strip s"
  by (simp add: strip_def lstrip_rstrip lstrip_head rstrip_idem)

lemma strip_head: "strip s = [] \<or> \<not> isspace (hd (strip s))"
proof -
  have "lstrip (strip s) = strip s"
    by (simp add: strip_def lstrip_rstrip lstrip_head)
  then show ?thesis
    using lstrip_head [of "strip s"] by simp
qed

lemma rstrip_space: "rstrip (s @ '' '') = rstrip s"
  by (simp add: rstrip_def isspace_def whitespace_def)

lemma strip_append_space:
  assumes "strip s = s"
  shows "strip (s @ '' '') = s"
proof (cases "s = []")
  case True
  then show ?thesis
    by (simp add: strip_def lstrip_def rstrip_def isspace_def whitespace_def)
next
  case False
  with assms strip_head [of s] have nsp: "\<not> isspace (hd s)" by simp
  with False have l: "lstrip s = s" by (simp add: lstrip_id)
  from False nsp have "lstrip (s @ '' '') = s @ '' ''"
    by (intro lstrip_id) simp
  then have "strip (s @ '' '') = rstrip s"
    by (simp add: strip_def rstrip_space)
  also have "\<dots> = strip s" by (simp add: strip_def l)
  finally show ?thesis using assms by simp
qed

subsection \<open>Drawing\<close>

lemma draw_word_empty: "draw_word [] r = Inl ValueError"
  by (simp add: draw_word_def sample_one_def)

lemma draw_word_nonempty:
  "ws \<noteq> [] \<Longrightarrow> draw_word ws r = Inr (strip (ws ! (r mod length ws)))"
  by (cases ws) (simp_all add: draw_word_def sample_one_def item0_def)

lemma draw_word_mem: "draw_word ws r = Inr w \<Longrightarrow> w \<in> strip ` set ws"
  by (cases "ws = []") (auto simp: draw_word_empty draw_word_nonempty)

lemma draw_word_stripped: "draw_word ws r = Inr w \<Longrightarrow> strip w = w"
  by (auto dest!: draw_word_mem simp: strip_idem)

text \<open>
  C7, as stated: drawing from an empty word list fails with an error of the
  \<^verbatim>\<open>IndexError\<close> class. It does not: \<^verbatim>\<open>random.sample\<close> rejects the sample size before
  anything is indexed, and \<^verbatim>\<open>ValueError\<close> is not an \<^verbatim>\<open>IndexError\<close>.
\<close>

theorem draw_empty_not_IndexError: "draw_word [] 0 \<noteq> Inl IndexError"
  by (simp add: draw_word_def sample_one_def)

text \<open>
  C7, amended: for an empty word list, drawing a word fails with \<^verbatim>\<open>ValueError\<close>, and
  nothing guards it: \<^verbatim>\<open>fetch_word\<close>, the construction of the window and the terminal
  function all end with that error, whatever the web, the clock and the input are.
\<close>

theorem draw_empty_ValueError:
  "draw_word [] r = Inl ValueError \<and>
   fetch_word http [] r now = Inl ValueError \<and>
   MyWindow http [] r now = Inl ValueError \<and>
   terminal_typing_practice http [] r evs = Raised ValueError"
  by (simp add: draw_word_def sample_one_def fetch_word_def MyWindow_def
      terminal_typing_practice_def terminal_start_def)

subsection \<open>The translation fetcher\<close>

lemma find_spec:
  "find_in c n =
     (case filter (has_class c) (nodes_of n) of [] \<Rightarrow> None | t # _ \<Rightarrow> Some t)"
  "find_first c ns =
     (case filter (has_class c) (concat (map nodes_of ns)) of [] \<Rightarrow> None | t # _ \<Rightarrow> Some t)"
proof (induction c n and c ns rule: find_in_find_first.induct)
  case (1 c k s)
  show ?case by simp
next
  case (2 c name cs kids)
  then show ?case by simp
next
  case (3 c)
  show ?case by simp
next
  case (4 c n ns)
  then show ?case
    by (cases "filter (has_class c) (nodes_of n)") simp_all
qed

lemma find_first_document_order:
  "find_first c soup =
     (case filter (has_class c) (document_order soup) of [] \<Rightarrow> None | t # _ \<Rightarrow> Some t)"
  by (simp add: find_spec(2) document_order_def)

lemma concat_concat_map: "concat (concat xss) = concat (map concat xss)"
  by (induction xss) simp_all

lemma all_strings_document_order:
  "concat (all_strings types n) = concat (map (string_in types) (nodes_of n))"
proof (induction n)
  case (Str k s)
  show ?case by simp
next
  case (Tag name cs kids)
  then have "map (\<lambda>n. concat (all_strings types n)) kids =
      map (\<lambda>n. concat (map (string_in types) (nodes_of n))) kids"
    by simp
  then have "concat (map (\<lambda>n. concat (all_strings types n)) kids) =
      concat (map (\<lambda>n. concat (map (string_in types) (nodes_of n))) kids)"
    by (rule arg_cong)
  then show ?case
    by (simp add: concat_concat_map map_concat comp_def)
qed

lemma get_text_document_order:
  "get_text (Tag name cs kids) =
     concat (map (string_in (interesting_string_types name)) (document_order kids))"
  using all_strings_document_order [of "interesting_string_types name" "Tag name cs kids"]
  by (simp add: document_order_def)

text \<open>
  C2, as stated: \<^verbatim>\<open>crawl_translation\<close> never returns an empty string. It does when the
  first element of class \<^verbatim>\<open>dtrans\<close> holds no text.
\<close>

theorem crawl_translation_empty:
  "crawl_translation (\<lambda>url. Inr [Tag ''span'' [''dtrans''] []]) ''hello'' = Inr (Some [])"
  by (simp add: crawl_translation_def url_cand_def)

text \<open>
  C2, amended: \<^verbatim>\<open>crawl_translation\<close> never returns \<^verbatim>\<open>None\<close>, and a string it returns
  is exactly \<^verbatim>\<open>'No translation found.'\<close> when the page has no element of class
  \<^verbatim>\<open>dtrans\<close>, and otherwise the text of the first such element in document order: the
  strings below it whose class is one of its interesting string types, joined in
  document order. That text leaves out comments and, for an ordinary element, the text
  of scripts, styles, templates and ruby annotations, and it may be empty.
\<close>

theorem crawl_translation_result:
  "crawl_translation http word \<noteq> Inr None \<and>
   (\<forall>s. crawl_translation http word = Inr (Some s) \<longrightarrow>
      (\<exists>soup. http (hd (url_cand word)) = Inr soup \<and>
         (case filter (has_class ''dtrans'') (document_order soup) of
            [] \<Rightarrow> s = ''No translation found.''
          | Str k x # _ \<Rightarrow> False
          | Tag name cs kids # _ \<Rightarrow>
              s = concat (map (string_in (interesting_string_types name))
                    (document_order kids)))))"
proof (intro conjI allI impI)
  show "crawl_translation http word \<noteq> Inr None"
    by (simp add: crawl_translation_def url_cand_def split: sum.splits option.splits)
next
  fix s
  assume r: "crawl_translation http word = Inr (Some s)"
  then obtain soup where soup: "http (hd (url_cand word)) = Inr soup"
    by (cases "http (hd (url_cand word))") (simp_all add: crawl_translation_def url_cand_def)
  have "case filter (has_class ''dtrans'') (document_order soup) of
            [] \<Rightarrow> s = ''No translation found.''
          | Str k x # _ \<Rightarrow> False
          | Tag name cs kids # _ \<Rightarrow>
              s = concat (map (string_in (interesting_string_types name))
                    (document_order kids))"
  proof (cases "filter (has_class ''dtrans'') (document_order soup)")
    case Nil
    with r soup show ?thesis
      by (simp add: crawl_translation_def url_cand_def sentinel_def find_first_document_order)
  next
    case (Cons t ts)
    then have "t \<in> set (filter (has_class ''dtrans'') (document_order soup))"
      by simp
    then have "has_class ''dtrans'' t" by simp
    then obtain name cs kids where t: "t = Tag name cs kids"
      by (cases t) simp_all
    from r soup Cons have "s = get_text t"
      by (simp add: crawl_translation_def url_cand_def find_first_document_order)
    with t have "s = concat (map (string_in (interesting_string_types name))
        (document_order kids))"
      by (simp only: get_text_document_order)
    with t Cons show ?thesis
      by simp
  qed
  with soup
  show "\<exists>soup. http (hd (url_cand word)) = Inr soup \<and>
         (case filter (has_class ''dtrans'') (document_order soup) of
            [] \<Rightarrow> s = ''No translation found.''
          | Str k x # _ \<Rightarrow> False
          | Tag name cs kids # _ \<Rightarrow>
              s = concat (map (string_in (interesting_string_types name))
                    (document_order kids)))"
    by blast
qed

theorem crawl_translation_result_witness:
  "crawl_translation
     (\<lambda>url. Inr [Tag ''div'' [''entry''] [Str NavigableString ''hello''],
                  Str NavigableString ''x''])
     ''hello'' = Inr (Some ''No translation found.'') \<and>
   crawl_translation
     (\<lambda>url. Inr [Tag ''div'' [''entry'']
        [Tag ''span'' [''trans'', ''dtrans'']
           [Str NavigableString ''a'', Str Comment ''x'',
            Tag ''script'' [] [Str Script ''y''],
            Tag ''b'' [] [Str NavigableString ''b''], Str CData ''c''],
         Tag ''span'' [''dtrans''] [Str NavigableString ''z'']]])
     ''hello'' = Inr (Some ''abc'') \<and>
   crawl_translation
     (\<lambda>url. Inr [Tag ''template'' [''dtrans'']
        [Str TemplateString ''y'', Str Comment ''x'']])
     ''hello'' = Inr (Some ''y'')"
  using crawl_translation_result
      [of "\<lambda>url. Inr [Tag ''div'' [''entry''] [Str NavigableString ''hello''],
                  Str NavigableString ''x'']" "''hello''"]
    crawl_translation_result
      [of "\<lambda>url. Inr [Tag ''div'' [''entry'']
        [Tag ''span'' [''trans'', ''dtrans'']
           [Str NavigableString ''a'', Str Comment ''x'',
            Tag ''script'' [] [Str Script ''y''],
            Tag ''b'' [] [Str NavigableString ''b''], Str CData ''c''],
         Tag ''span'' [''dtrans''] [Str NavigableString ''z'']]]" "''hello''"]
    crawl_translation_result
      [of "\<lambda>url. Inr [Tag ''template'' [''dtrans'']
        [Str TemplateString ''y'', Str Comment ''x'']]" "''hello''"]
  by (simp add: crawl_translation_def url_cand_def sentinel_def interesting_string_types_def
      string_containers_def)

subsection \<open>The word source\<close>

lemma concat_readlines: "concat (readlines s) = s"
  by (induction s) (auto split: list.splits)

lemma readlines_Nil: "readlines s = [] \<longleftrightarrow> s = []"
  by (cases s) (auto split: list.splits)

lemma readlines_line:
  "l \<in> set (readlines s) \<Longrightarrow> l \<noteq> [] \<and> LF \<notin> set (butlast l)"
proof (induction s arbitrary: l)
  case Nil
  then show ?case by simp
next
  case (Cons c cs)
  show ?case
  proof (cases "c = LF")
    case True
    with Cons show ?thesis by auto
  next
    case False
    show ?thesis
    proof (cases "readlines cs")
      case Nil
      with False Cons.prems show ?thesis by simp
    next
      case (Cons k ks)
      with Cons.IH have k: "k \<noteq> [] \<and> LF \<notin> set (butlast k)"
        and ks: "\<And>l. l \<in> set ks \<Longrightarrow> l \<noteq> [] \<and> LF \<notin> set (butlast l)"
        by simp_all
      from False Cons Cons.prems have "l = c # k \<or> l \<in> set ks" by simp
      with k ks False show ?thesis by auto
    qed
  qed
qed

lemma readlines_terminated:
  "l \<in> set (butlast (readlines s)) \<Longrightarrow> last l = LF"
proof (induction s arbitrary: l)
  case Nil
  then show ?case by simp
next
  case (Cons c cs)
  show ?case
  proof (cases "c = LF")
    case True
    with Cons show ?thesis by (auto split: if_splits)
  next
    case False
    show ?thesis
    proof (cases "readlines cs")
      case Nil
      with False Cons.prems show ?thesis by simp
    next
      case (Cons k ks)
      from readlines_line [of k cs] Cons have k: "k \<noteq> []" by simp
      from False Cons Cons.prems have "ks \<noteq> [] \<and> (l = c # k \<or> l \<in> set (butlast ks))"
        by (auto split: if_splits)
      with Cons Cons.IH k show ?thesis by auto
    qed
  qed
qed

lemma readlines_count:
  "length (readlines s) = count_list s LF + (if s = [] \<or> last s = LF then 0 else 1)"
proof (induction s)
  case Nil
  show ?case by simp
next
  case (Cons c cs)
  show ?case
  proof (cases "cs = []")
    case True
    then show ?thesis by simp
  next
    case False
    then have "readlines cs \<noteq> []" by (simp add: readlines_Nil)
    then obtain k ks where "readlines cs = k # ks" by (cases "readlines cs") auto
    with Cons False show ?thesis by auto
  qed
qed

lemma universal_newlines_id: "CR \<notin> set s \<Longrightarrow> universal_newlines s = s"
  by (induction s rule: universal_newlines.induct) auto

lemma universal_newlines_no_CR: "CR \<notin> set (universal_newlines s)"
  by (induction s rule: universal_newlines.induct) (auto simp: CR_def LF_def)

text \<open>
  C8, as stated: the line terminators are preserved in the entries, and a file that can
  be opened is returned. A line that ends in \<^verbatim>\<open>\r\n\<close> comes back ending in \<^verbatim>\<open>\n\<close>, and
  a file that is not UTF-8 raises \<^verbatim>\<open>UnicodeDecodeError\<close>.
\<close>

theorem read_file_translates:
  "read_file (\<lambda>path. Some (Text_file (''ab '' @ [CR, LF] @ ''cd''))) ''Oxford 5000.txt''
     = Inr [''ab \<newline>'', ''cd''] \<and>
   read_file (\<lambda>path. Some (Text_file (''ab '' @ [CR, LF] @ ''cd''))) ''Oxford 5000.txt''
     \<noteq> Inr [''ab '' @ [CR, LF], ''cd''] \<and>
   read_file (\<lambda>path. Some Not_utf8) ''Oxford 5000.txt'' = Inl UnicodeDecodeError"
  by (simp add: read_file_def CR_def LF_def)

text \<open>
  C8, amended: \<^verbatim>\<open>read_file\<close> raises \<^verbatim>\<open>IOError\<close> if and only if the file cannot be opened.
  For a file that opens and decodes as UTF-8 it returns one entry per line of the text
  read in universal newlines mode: the entries joined give that text back, so trailing
  whitespace is kept; no entry is empty or holds \<^verbatim>\<open>\n\<close> before its last character, and
  every entry but the last ends in \<^verbatim>\<open>\n\<close>; there are as many entries as \<^verbatim>\<open>\n\<close> in the
  text, and one more when the text ends without one. The terminators are preserved as
  stored when the file holds no \<^verbatim>\<open>\r\<close>.
\<close>

theorem read_file_lines:
  "(read_file fs path = Inl IOError \<longleftrightarrow> fs path = None) \<and>
   (fs path = Some (Text_file s) \<longrightarrow>
      (\<exists>ls. read_file fs path = Inr ls \<and> concat ls = universal_newlines s \<and>
            (\<forall>l \<in> set ls. l \<noteq> [] \<and> LF \<notin> set (butlast l)) \<and>
            (\<forall>l \<in> set (butlast ls). last l = LF) \<and>
            length ls = count_list (universal_newlines s) LF +
              (if universal_newlines s = [] \<or> last (universal_newlines s) = LF then 0 else 1) \<and>
            (CR \<notin> set s \<longrightarrow> concat ls = s)))"
proof (intro conjI impI)
  show "read_file fs path = Inl IOError \<longleftrightarrow> fs path = None"
    by (simp add: read_file_def split: option.splits stored.splits)
next
  assume "fs path = Some (Text_file s)"
  then have "read_file fs path = Inr (readlines (universal_newlines s))"
    by (simp add: read_file_def)
  moreover have "concat (readlines (universal_newlines s)) = universal_newlines s"
    by (rule concat_readlines)
  moreover have "\<forall>l \<in> set (readlines (universal_newlines s)). l \<noteq> [] \<and> LF \<notin> set (butlast l)"
    using readlines_line by blast
  moreover have "\<forall>l \<in> set (butlast (readlines (universal_newlines s))). last l = LF"
    using readlines_terminated by blast
  moreover have "CR \<notin> set s \<longrightarrow> concat (readlines (universal_newlines s)) = s"
    by (simp add: concat_readlines universal_newlines_id)
  moreover have "length (readlines (universal_newlines s)) =
      count_list (universal_newlines s) LF +
        (if universal_newlines s = [] \<or> last (universal_newlines s) = LF then 0 else 1)"
    by (rule readlines_count)
  ultimately show "\<exists>ls. read_file fs path = Inr ls \<and> concat ls = universal_newlines s \<and>
            (\<forall>l \<in> set ls. l \<noteq> [] \<and> LF \<notin> set (butlast l)) \<and>
            (\<forall>l \<in> set (butlast ls). last l = LF) \<and>
            length ls = count_list (universal_newlines s) LF +
              (if universal_newlines s = [] \<or> last (universal_newlines s) = LF then 0 else 1) \<and>
            (CR \<notin> set s \<longrightarrow> concat ls = s)"
    by blast
qed

theorem read_file_lines_witness:
  "read_file (\<lambda>path. if path = ''Oxford 5000.txt'' then Some (Text_file ''a \<newline>b'') else None)
     ''Oxford 5000.txt'' = Inr [''a \<newline>'', ''b''] \<and>
   concat [''a \<newline>'', ''b''] = ''a \<newline>b'' \<and>
   read_file (\<lambda>path. if path = ''Oxford 5000.txt'' then Some (Text_file ''a \<newline>b'') else None)
     ''words.txt'' = Inl IOError"
  using read_file_lines
    [of "\<lambda>path. if path = ''Oxford 5000.txt'' then Some (Text_file ''a \<newline>b'') else None"
      "''Oxford 5000.txt''" "''a \<newline>b''"]
    read_file_lines
    [of "\<lambda>path. if path = ''Oxford 5000.txt'' then Some (Text_file ''a \<newline>b'') else None"
      "''words.txt''"]
  by (simp add: read_file_def CR_def LF_def)

subsection \<open>One round of each front end\<close>

lemmas strip_eval = strip_def lstrip_def rstrip_def isspace_def whitespace_def

lemma strip_finish: "strip ''finish practice'' = ''finish practice''"
  by (simp add: strip_eval)

lemmas draw_eval = draw_word_def sample_one_def item0_def strip_eval

lemmas crawl_eval = crawl_translation_def url_cand_def sentinel_def py_str_def

lemma fetch_word_Inr:
  "fetch_word http ws r now = Inr (w, q, t) \<Longrightarrow>
     draw_word ws r = Inr w \<and> (\<exists>tr. q = Shown w tr) \<and> t = now"
  by (auto simp: fetch_word_def split: sum.splits)

lemma gui_input_eq:
  "gui_input http g ev =
     (if strip (typed ev) = cur_word g then
        (if time1 ev = start_time g then Raised ZeroDivisionError
         else case fetch_word http (words g) (pick ev) (time2 ev) of
                Inl e \<Rightarrow> Raised e
              | Inr (w, q, t) \<Rightarrow>
                  Next (g\<lparr>inputbox := '''', succ_cnt := succ_cnt g + 1,
                          result_style := ''color: green'',
                          result := Correct (real (length (cur_word g)) / (time1 ev - start_time g)),
                          question := q, start_time := t, cur_word := w\<rparr>))
      else if strip (typed ev) = ''finish practice'' then
        Exited (g\<lparr>inputbox := '''', result_style := ''color: yellow'',
                    stdout := stdout g @ [Plain (Practiced (succ_cnt g) (plural (succ_cnt g)))]\<rparr>)
      else Next (g\<lparr>inputbox := '''', result_style := ''color: red'', result := Wrong,
                    start_time := time1 ev\<rparr>))"
  by (simp add: gui_input_def enter_text_def Let_def split: sum.splits prod.splits)

lemma terminal_iteration_eq:
  "terminal_iteration http s ev =
     (case crawl_translation http (cur_word s) of
        Inl e \<Rightarrow> Raised e
      | Inr tr \<Rightarrow>
          if typed ev = ''finish practice'' then
            Exited (s\<lparr>stdout := stdout s @
              [Colored (Shown (cur_word s) (py_str tr)) ''blue'',
               Colored (Practiced (succ_cnt s) (plural (succ_cnt s))) ''yellow'']\<rparr>)
          else if typed ev = cur_word s then
            (if time2 ev = time1 ev then Raised ZeroDivisionError
             else case draw_word (words s) (pick ev) of
                    Inl e \<Rightarrow> Raised e
                  | Inr w \<Rightarrow>
                      Next (s\<lparr>stdout := stdout s @
                        [Colored (Shown (cur_word s) (py_str tr)) ''blue'',
                         Colored (Correct (real (length (cur_word s)) / (time2 ev - time1 ev))) ''green''],
                        succ_cnt := succ_cnt s + 1, cur_word := w\<rparr>))
          else Next (s\<lparr>stdout := stdout s @
                 [Colored (Shown (cur_word s) (py_str tr)) ''blue'', Colored Wrong ''red'']\<rparr>))"
  by (simp add: terminal_iteration_def Let_def split: sum.splits)

lemmas round_eval = gui_input_eq terminal_iteration_eq fetch_word_def draw_eval crawl_eval plural_def

lemma gui_input_Next:
  assumes "gui_input http g ev = Next g'"
  shows "(\<exists>w q t. strip (typed ev) = cur_word g \<and> time1 ev \<noteq> start_time g \<and>
            fetch_word http (words g) (pick ev) (time2 ev) = Inr (w, q, t) \<and>
            g' = g\<lparr>inputbox := [], succ_cnt := succ_cnt g + 1,
                          result_style := ''color: green'',
                          result := Correct (real (length (cur_word g)) / (time1 ev - start_time g)),
                          question := q, start_time := t, cur_word := w\<rparr>) \<or>
         (strip (typed ev) \<noteq> cur_word g \<and> strip (typed ev) \<noteq> ''finish practice'' \<and>
            g' = g\<lparr>inputbox := [], result_style := ''color: red'', result := Wrong,
                    start_time := time1 ev\<rparr>)"
proof (cases "strip (typed ev) = cur_word g")
  case True
  with assms have t: "time1 ev \<noteq> start_time g"
    by (auto simp: gui_input_eq)
  with True assms obtain x where x: "fetch_word http (words g) (pick ev) (time2 ev) = Inr x"
    by (cases "fetch_word http (words g) (pick ev) (time2 ev)") (simp_all add: gui_input_eq)
  obtain w q t' where "x = (w, q, t')" by (cases x)
  with x True t assms show ?thesis
    by (simp add: gui_input_eq)
next
  case False
  with assms show ?thesis
    by (cases "strip (typed ev) = ''finish practice''") (simp_all add: gui_input_eq)
qed

lemma gui_input_Exited:
  assumes "gui_input http g ev = Exited g'"
  shows "strip (typed ev) \<noteq> cur_word g \<and> strip (typed ev) = ''finish practice'' \<and>
         g' = g\<lparr>inputbox := [], result_style := ''color: yellow'',
                    stdout := stdout g @ [Plain (Practiced (succ_cnt g) (plural (succ_cnt g)))]\<rparr>"
proof (cases "strip (typed ev) = cur_word g")
  case True
  with assms show ?thesis
    by (cases "fetch_word http (words g) (pick ev) (time2 ev)")
       (simp_all add: gui_input_eq split: if_splits prod.splits)
next
  case False
  with assms show ?thesis
    by (cases "strip (typed ev) = ''finish practice''") (simp_all add: gui_input_eq)
qed

lemma terminal_iteration_Next:
  assumes "terminal_iteration http s ev = Next s'"
  shows "\<exists>tr. crawl_translation http (cur_word s) = Inr tr \<and> typed ev \<noteq> ''finish practice'' \<and>
           ((\<exists>w. typed ev = cur_word s \<and> time2 ev \<noteq> time1 ev \<and>
               draw_word (words s) (pick ev) = Inr w \<and>
               s' = s\<lparr>stdout := stdout s @
                        [Colored (Shown (cur_word s) (py_str tr)) ''blue'',
                         Colored (Correct (real (length (cur_word s)) / (time2 ev - time1 ev))) ''green''],
                        succ_cnt := succ_cnt s + 1, cur_word := w\<rparr>) \<or>
            (typed ev \<noteq> cur_word s \<and>
               s' = s\<lparr>stdout := stdout s @
                 [Colored (Shown (cur_word s) (py_str tr)) ''blue'', Colored Wrong ''red'']\<rparr>))"
proof -
  from assms obtain tr where tr: "crawl_translation http (cur_word s) = Inr tr"
    by (cases "crawl_translation http (cur_word s)") (simp_all add: terminal_iteration_eq)
  with assms have nf: "typed ev \<noteq> ''finish practice''"
    by (auto simp: terminal_iteration_eq)
  show ?thesis
  proof (cases "typed ev = cur_word s")
    case True
    with assms tr nf have t: "time2 ev \<noteq> time1 ev"
      by (auto simp: terminal_iteration_eq)
    with assms tr nf True obtain w where "draw_word (words s) (pick ev) = Inr w"
      by (cases "draw_word (words s) (pick ev)") (simp_all add: terminal_iteration_eq)
    with assms tr nf True t show ?thesis
      by (simp add: terminal_iteration_eq)
  next
    case False
    with assms tr nf show ?thesis
      by (simp add: terminal_iteration_eq)
  qed
qed

lemma terminal_iteration_Exited:
  assumes "terminal_iteration http s ev = Exited s'"
  shows "\<exists>tr. crawl_translation http (cur_word s) = Inr tr \<and> typed ev = ''finish practice'' \<and>
           s' = s\<lparr>stdout := stdout s @
              [Colored (Shown (cur_word s) (py_str tr)) ''blue'',
               Colored (Practiced (succ_cnt s) (plural (succ_cnt s))) ''yellow'']\<rparr>"
proof -
  from assms obtain tr where tr: "crawl_translation http (cur_word s) = Inr tr"
    by (cases "crawl_translation http (cur_word s)") (simp_all add: terminal_iteration_eq)
  show ?thesis
  proof (cases "typed ev = ''finish practice''")
    case True
    with assms tr show ?thesis by (simp add: terminal_iteration_eq)
  next
    case False
    with assms tr show ?thesis
      by (cases "draw_word (words s) (pick ev)") (simp_all add: terminal_iteration_eq split: if_splits)
  qed
qed

subsection \<open>Sequences of rounds\<close>

lemma gui_input_keeps:
  assumes "gui_input http g ev = Next g' \<or> gui_input http g ev = Exited g'"
  shows "words g' = words g \<and> succ_cnt g \<le> succ_cnt g' \<and>
         (cur_word g' = cur_word g \<and> question g' = question g \<or>
          cur_word g' \<in> strip ` set (words g) \<and> (\<exists>tr. question g' = Shown (cur_word g') tr))"
  using assms
proof
  assume "gui_input http g ev = Next g'"
  from gui_input_Next [OF this] show ?thesis
  proof (elim disjE exE conjE)
    fix w q t
    assume f: "fetch_word http (words g) (pick ev) (time2 ev) = Inr (w, q, t)"
      and g': "g' = g\<lparr>inputbox := [], succ_cnt := succ_cnt g + 1,
                          result_style := ''color: green'',
                          result := Correct (real (length (cur_word g)) / (time1 ev - start_time g)),
                          question := q, start_time := t, cur_word := w\<rparr>"
    from fetch_word_Inr [OF f] draw_word_mem have "w \<in> strip ` set (words g)" "\<exists>tr. q = Shown w tr"
      by blast+
    with g' show ?thesis by simp
  next
    assume "g' = g\<lparr>inputbox := [], result_style := ''color: red'', result := Wrong,
                    start_time := time1 ev\<rparr>"
    then show ?thesis by simp
  qed
next
  assume "gui_input http g ev = Exited g'"
  from gui_input_Exited [OF this] show ?thesis by simp
qed

lemma gui_run_keeps:
  "gui_run http g evs = Next g' \<or> gui_run http g evs = Exited g' \<Longrightarrow>
     words g' = words g \<and> succ_cnt g \<le> succ_cnt g' \<and>
     (cur_word g' = cur_word g \<and> question g' = question g \<or>
      cur_word g' \<in> strip ` set (words g) \<and> (\<exists>tr. question g' = Shown (cur_word g') tr))"
proof (induction evs arbitrary: g)
  case Nil
  then show ?case by simp
next
  case (Cons ev evs)
  show ?case
  proof (cases "gui_input http g ev")
    case (Next g1)
    with Cons.prems have "gui_run http g1 evs = Next g' \<or> gui_run http g1 evs = Exited g'"
      by simp
    from Cons.IH [OF this] gui_input_keeps [of http g ev g1] Next
    show ?thesis by auto
  next
    case (Exited g1)
    with Cons.prems have "g1 = g'" by simp
    with Exited gui_input_keeps [of http g ev g'] show ?thesis by simp
  next
    case (Raised e)
    with Cons.prems show ?thesis by simp
  qed
qed

lemma presented_append: "presented (out @ out') = presented out @ presented out'"
  by (induction out rule: presented.induct) simp_all

lemma terminal_iteration_keeps:
  assumes "terminal_iteration http s ev = Next s' \<or> terminal_iteration http s ev = Exited s'"
  shows "words s' = words s \<and> succ_cnt s \<le> succ_cnt s' \<and>
         (cur_word s' = cur_word s \<or> cur_word s' \<in> strip ` set (words s)) \<and>
         presented (stdout s') = presented (stdout s) @ [cur_word s]"
  using assms
proof
  assume "terminal_iteration http s ev = Next s'"
  from terminal_iteration_Next [OF this] draw_word_mem show ?thesis
    by (auto simp: presented_append)
next
  assume "terminal_iteration http s ev = Exited s'"
  from terminal_iteration_Exited [OF this] show ?thesis
    by (auto simp: presented_append)
qed

lemma terminal_run_keeps:
  "terminal_run http s evs = Next s' \<or> terminal_run http s evs = Exited s' \<Longrightarrow>
     words s' = words s \<and> succ_cnt s \<le> succ_cnt s' \<and>
     (cur_word s' = cur_word s \<or> cur_word s' \<in> strip ` set (words s)) \<and>
     set (presented (stdout s')) \<subseteq>
       set (presented (stdout s)) \<union> {cur_word s} \<union> strip ` set (words s)"
proof (induction evs arbitrary: s)
  case Nil
  then show ?case by auto
next
  case (Cons ev evs)
  show ?case
  proof (cases "terminal_iteration http s ev")
    case (Next s1)
    with Cons.prems have "terminal_run http s1 evs = Next s' \<or> terminal_run http s1 evs = Exited s'"
      by simp
    from Cons.IH [OF this] terminal_iteration_keeps [of http s ev s1] Next
    show ?thesis by auto
  next
    case (Exited s1)
    with Cons.prems have "s1 = s'" by simp
    with Exited terminal_iteration_keeps [of http s ev s'] show ?thesis by auto
  next
    case (Raised e)
    with Cons.prems show ?thesis by simp
  qed
qed

lemma gui_wrong_run:
  "\<forall>ev \<in> set evs. strip (typed ev) \<noteq> cur_word g \<and> strip (typed ev) \<noteq> ''finish practice'' \<Longrightarrow>
   \<exists>g'. gui_run http g evs = Next g' \<and> words g' = words g \<and> cur_word g' = cur_word g \<and>
        succ_cnt g' = succ_cnt g \<and> question g' = question g"
proof (induction evs arbitrary: g)
  case Nil
  show ?case by simp
next
  case (Cons ev evs)
  let ?g1 = "g\<lparr>inputbox := [], result_style := ''color: red'', result := Wrong,
                 start_time := time1 ev\<rparr>"
  from Cons.prems have step: "gui_input http g ev = Next ?g1"
    by (simp add: gui_input_eq)
  from Cons.prems have "\<forall>e \<in> set evs. strip (typed e) \<noteq> cur_word ?g1 \<and>
      strip (typed e) \<noteq> ''finish practice''"
    by simp
  from Cons.IH [OF this] step show ?case
    by auto
qed

lemma terminal_wrong_run:
  "\<forall>ev \<in> set evs. typed ev \<noteq> cur_word s \<and> typed ev \<noteq> ''finish practice'' \<Longrightarrow>
   crawl_translation http (cur_word s) = Inr tr \<Longrightarrow>
   \<exists>s'. terminal_run http s evs = Next s' \<and> words s' = words s \<and> cur_word s' = cur_word s \<and>
        succ_cnt s' = succ_cnt s"
proof (induction evs arbitrary: s)
  case Nil
  show ?case by simp
next
  case (Cons ev evs)
  let ?s1 = "s\<lparr>stdout := stdout s @
                 [Colored (Shown (cur_word s) (py_str tr)) ''blue'', Colored Wrong ''red'']\<rparr>"
  from Cons.prems have step: "terminal_iteration http s ev = Next ?s1"
    by (simp add: terminal_iteration_eq)
  from Cons.prems have "\<forall>e \<in> set evs. typed e \<noteq> cur_word ?s1 \<and> typed e \<noteq> ''finish practice''"
    and "crawl_translation http (cur_word ?s1) = Inr tr"
    by simp_all
  from Cons.IH [OF this] step show ?case
    by auto
qed

lemma terminal_run_append:
  "terminal_run http s evs = Next s' \<Longrightarrow>
   terminal_run http s (evs @ evs') = terminal_run http s' evs'"
proof (induction evs arbitrary: s)
  case Nil
  then show ?case by simp
next
  case (Cons ev evs)
  then show ?case
    by (cases "terminal_iteration http s ev") simp_all
qed

subsection \<open>The success count\<close>

text \<open>
  C1, as stated: in every session state an input equal to the current word increments
  \<open>succ_cnt\<close> by one. In the terminal it does not when the word is \<^verbatim>\<open>finish practice\<close>:
  the loop tests the exit command first and ends the session with the count unchanged.
\<close>

theorem terminal_exits_on_its_word:
  "terminal_typing_practice (\<lambda>url. Inr []) [''finish practice\<newline>''] 0
     [\<lparr>typed = ''finish practice'', pick = 0, time1 = 0, time2 = 1\<rparr>] =
   Exited \<lparr>words = [''finish practice\<newline>''], succ_cnt = 0, cur_word = ''finish practice'',
     stdout = [Colored (Shown ''finish practice'' ''No translation found.'') ''blue'',
               Colored (Practiced 0 []) ''yellow'']\<rparr>"
  by (simp add: terminal_typing_practice_def terminal_start_def round_eval)

text \<open>
  C1, amended: an input equal to the current word increments \<open>succ_cnt\<close> by exactly one
  whenever the round completes, that is when the elapsed time is not zero and the next
  word is drawn (in the window: drawn and its translation fetched); the window needs the
  current word trimmed, as every drawn word is, and the terminal needs the current word
  different from \<^verbatim>\<open>finish practice\<close>. Over any sequence of rounds of either front end
  \<open>succ_cnt\<close> never decreases.
\<close>

theorem correct_answer_counts:
  "(strip (cur_word g) = cur_word g \<longrightarrow> typed ev = cur_word g \<longrightarrow>
      time1 ev \<noteq> start_time g \<longrightarrow>
      fetch_word http (words g) (pick ev) (time2 ev) = Inr (w, q, t) \<longrightarrow>
      (\<exists>g'. gui_input http g ev = Next g' \<and> succ_cnt g' = succ_cnt g + 1)) \<and>
   (typed ev = cur_word s \<longrightarrow> cur_word s \<noteq> ''finish practice'' \<longrightarrow>
      crawl_translation http (cur_word s) = Inr tr \<longrightarrow> time2 ev \<noteq> time1 ev \<longrightarrow>
      draw_word (words s) (pick ev) = Inr w' \<longrightarrow>
      (\<exists>s'. terminal_iteration http s ev = Next s' \<and> succ_cnt s' = succ_cnt s + 1)) \<and>
   (gui_run http g evs = Next g1 \<or> gui_run http g evs = Exited g1 \<longrightarrow>
      succ_cnt g \<le> succ_cnt g1) \<and>
   (terminal_run http s evs = Next s1 \<or> terminal_run http s evs = Exited s1 \<longrightarrow>
      succ_cnt s \<le> succ_cnt s1)"
proof (intro conjI impI)
  assume "strip (cur_word g) = cur_word g" "typed ev = cur_word g" "time1 ev \<noteq> start_time g"
    "fetch_word http (words g) (pick ev) (time2 ev) = Inr (w, q, t)"
  then show "\<exists>g'. gui_input http g ev = Next g' \<and> succ_cnt g' = succ_cnt g + 1"
    by (simp add: gui_input_eq)
next
  assume "typed ev = cur_word s" "cur_word s \<noteq> ''finish practice''"
    "crawl_translation http (cur_word s) = Inr tr" "time2 ev \<noteq> time1 ev"
    "draw_word (words s) (pick ev) = Inr w'"
  then show "\<exists>s'. terminal_iteration http s ev = Next s' \<and> succ_cnt s' = succ_cnt s + 1"
    by (simp add: terminal_iteration_eq)
next
  assume "gui_run http g evs = Next g1 \<or> gui_run http g evs = Exited g1"
  from gui_run_keeps [OF this] show "succ_cnt g \<le> succ_cnt g1" by simp
next
  assume "terminal_run http s evs = Next s1 \<or> terminal_run http s evs = Exited s1"
  from terminal_run_keeps [OF this] show "succ_cnt s \<le> succ_cnt s1" by simp
qed

theorem correct_answer_counts_witness:
  "(\<exists>g'. gui_input (\<lambda>url. Inr [])
       \<lparr>words = [''hello\<newline>'', ''world\<newline>''], succ_cnt = 3, cur_word = ''hello'',
        stdout = [], start_time = 10, inputbox = [],
        question = Shown ''hello'' ''No translation found.'', result = Blank, result_style = []\<rparr>
       \<lparr>typed = ''hello'', pick = 1, time1 = 12, time2 = 13\<rparr> = Next g' \<and> succ_cnt g' = 3 + 1) \<and>
   (\<exists>s'. terminal_iteration (\<lambda>url. Inr [])
       \<lparr>words = [''hello\<newline>'', ''world\<newline>''], succ_cnt = 3, cur_word = ''hello'', stdout = []\<rparr>
       \<lparr>typed = ''hello'', pick = 1, time1 = 12, time2 = 13\<rparr> = Next s' \<and> succ_cnt s' = 3 + 1) \<and>
   (\<exists>g1. gui_run (\<lambda>url. Inr [])
       \<lparr>words = [''hello\<newline>'', ''world\<newline>''], succ_cnt = 3, cur_word = ''hello'',
        stdout = [], start_time = 10, inputbox = [],
        question = Shown ''hello'' ''No translation found.'', result = Blank, result_style = []\<rparr>
       [\<lparr>typed = ''hallo'', pick = 1, time1 = 12, time2 = 13\<rparr>,
        \<lparr>typed = ''finish practice'', pick = 1, time1 = 12, time2 = 13\<rparr>] = Exited g1 \<and>
       3 \<le> succ_cnt g1) \<and>
   (\<exists>s1. terminal_run (\<lambda>url. Inr [])
       \<lparr>words = [''hello\<newline>'', ''world\<newline>''], succ_cnt = 3, cur_word = ''hello'', stdout = []\<rparr>
       [\<lparr>typed = ''hello'', pick = 1, time1 = 12, time2 = 13\<rparr>,
        \<lparr>typed = ''hello'', pick = 1, time1 = 14, time2 = 15\<rparr>] = Next s1 \<and>
       3 \<le> succ_cnt s1)"
proof -
  let ?http = "\<lambda>url. Inr [] :: py_error + node list"
  let ?g = "\<lparr>words = [''hello\<newline>'', ''world\<newline>''], succ_cnt = 3, cur_word = ''hello'',
        stdout = [], start_time = 10, inputbox = [],
        question = Shown ''hello'' ''No translation found.'', result = Blank, result_style = []\<rparr>"
  let ?s = "\<lparr>words = [''hello\<newline>'', ''world\<newline>''], succ_cnt = 3, cur_word = ''hello'', stdout = []\<rparr>"
  let ?ev = "\<lparr>typed = ''hello'', pick = 1, time1 = 12, time2 = 13\<rparr>"
  let ?gevs = "[\<lparr>typed = ''hallo'', pick = 1, time1 = 12, time2 = 13\<rparr>,
        \<lparr>typed = ''finish practice'', pick = 1, time1 = 12, time2 = 13\<rparr>]"
  let ?sevs = "[?ev, \<lparr>typed = ''hello'', pick = 1, time1 = 14, time2 = 15\<rparr>]"
  obtain g1 where g1: "gui_run ?http ?g ?gevs = Exited g1"
    by (simp add: round_eval)
  obtain s1 where s1: "terminal_run ?http ?s ?sevs = Next s1"
    by (simp add: round_eval)
  have a: "\<exists>g'. gui_input ?http ?g ?ev = Next g' \<and> succ_cnt g' = 3 + 1"
    and b: "\<exists>s'. terminal_iteration ?http ?s ?ev = Next s' \<and> succ_cnt s' = 3 + 1"
    using correct_answer_counts
      [of ?g ?ev ?http "''world''" "Shown ''world'' ''No translation found.''" 13
        ?s "Some ''No translation found.''" "''world''"]
    by (simp_all add: fetch_word_def draw_eval crawl_eval)
  have c: "3 \<le> succ_cnt g1"
    using correct_answer_counts [of ?g _ ?http _ _ _ ?s _ _ ?gevs g1] g1 by simp
  have d: "3 \<le> succ_cnt s1"
    using correct_answer_counts [of ?g _ ?http _ _ _ ?s _ _ ?sevs _ s1] s1 by simp
  from a b c d g1 s1 show ?thesis by blast
qed

subsection \<open>The clock after a wrong answer\<close>

text \<open>
  C3, as stated: the terminal keeps the original start time across wrong attempts. It
  does not: the word is shown at time 0, a wrong answer follows, the next iteration takes
  its start time at 10 and the right answer comes at 12. The reported speed is
  \<open>2 / (12 - 10)\<close>, not \<open>2 / (12 - 0)\<close>.
\<close>

theorem terminal_clock_restarts:
  "terminal_typing_practice (\<lambda>url. Inr []) [''ab\<newline>''] 0
     [\<lparr>typed = ''ba'', pick = 0, time1 = 0, time2 = 0\<rparr>,
      \<lparr>typed = ''ab'', pick = 0, time1 = 10, time2 = 12\<rparr>,
      \<lparr>typed = ''finish practice'', pick = 0, time1 = 13, time2 = 13\<rparr>] =
   Exited \<lparr>words = [''ab\<newline>''], succ_cnt = 1, cur_word = ''ab'',
     stdout = [Colored (Shown ''ab'' ''No translation found.'') ''blue'',
               Colored Wrong ''red'',
               Colored (Shown ''ab'' ''No translation found.'') ''blue'',
               Colored (Correct (2 / (12 - 10))) ''green'',
               Colored (Shown ''ab'' ''No translation found.'') ''blue'',
               Colored (Practiced 1 []) ''yellow'']\<rparr> \<and>
   (2::real) / (12 - 10) \<noteq> 2 / (12 - 0)"
  by (simp add: terminal_typing_practice_def terminal_start_def round_eval)

text \<open>
  C3, amended: on a wrong answer the window sets \<open>start_time\<close> to the moment of the
  wrong answer and keeps the word. The terminal loop takes a new start time in every
  iteration: after any number of wrong attempts on a word, the speed reported for the
  right answer is measured from the start time of the iteration in which it is given.
\<close>

theorem wrong_answer_clock:
  "(strip (typed ev) \<noteq> cur_word g \<longrightarrow> strip (typed ev) \<noteq> ''finish practice'' \<longrightarrow>
      (\<exists>g'. gui_input http g ev = Next g' \<and> start_time g' = time1 ev \<and>
            cur_word g' = cur_word g)) \<and>
   ((\<forall>e \<in> set wrongs. typed e \<noteq> cur_word s \<and> typed e \<noteq> ''finish practice'') \<longrightarrow>
      typed ev = cur_word s \<longrightarrow> cur_word s \<noteq> ''finish practice'' \<longrightarrow>
      crawl_translation http (cur_word s) = Inr tr \<longrightarrow> time2 ev \<noteq> time1 ev \<longrightarrow>
      draw_word (words s) (pick ev) = Inr w \<longrightarrow>
      (\<exists>s'. terminal_run http s (wrongs @ [ev]) = Next s' \<and>
            last (stdout s') =
              Colored (Correct (real (length (cur_word s)) / (time2 ev - time1 ev))) ''green''))"
proof (intro conjI impI)
  assume "strip (typed ev) \<noteq> cur_word g" "strip (typed ev) \<noteq> ''finish practice''"
  then show "\<exists>g'. gui_input http g ev = Next g' \<and> start_time g' = time1 ev \<and>
            cur_word g' = cur_word g"
    by (simp add: gui_input_eq)
next
  assume wrongs: "\<forall>e \<in> set wrongs. typed e \<noteq> cur_word s \<and> typed e \<noteq> ''finish practice''"
    and tr: "crawl_translation http (cur_word s) = Inr tr"
    and right: "typed ev = cur_word s" "cur_word s \<noteq> ''finish practice''"
      "time2 ev \<noteq> time1 ev" "draw_word (words s) (pick ev) = Inr w"
  from terminal_wrong_run [OF wrongs tr] obtain s1
    where s1: "terminal_run http s wrongs = Next s1" "words s1 = words s"
      "cur_word s1 = cur_word s"
    by blast
  from terminal_run_append [OF s1(1)]
  have "terminal_run http s (wrongs @ [ev]) = terminal_run http s1 [ev]" .
  with s1 tr right
  show "\<exists>s'. terminal_run http s (wrongs @ [ev]) = Next s' \<and>
            last (stdout s') =
              Colored (Correct (real (length (cur_word s)) / (time2 ev - time1 ev))) ''green''"
    by (simp add: terminal_iteration_eq)
qed

theorem wrong_answer_clock_witness:
  "(\<exists>g'. gui_input (\<lambda>url. Inr [])
       \<lparr>words = [''ab\<newline>''], succ_cnt = 0, cur_word = ''ab'',
        stdout = [], start_time = 0, inputbox = [],
        question = Shown ''ab'' ''No translation found.'', result = Blank, result_style = []\<rparr>
       \<lparr>typed = ''ba'', pick = 0, time1 = 7, time2 = 8\<rparr> = Next g' \<and>
       start_time g' = 7 \<and> cur_word g' = ''ab'') \<and>
   (\<exists>s'. terminal_run (\<lambda>url. Inr [])
       \<lparr>words = [''ab\<newline>''], succ_cnt = 0, cur_word = ''ab'', stdout = []\<rparr>
       ([\<lparr>typed = ''ba'', pick = 0, time1 = 0, time2 = 0\<rparr>,
         \<lparr>typed = ''a'', pick = 0, time1 = 5, time2 = 5\<rparr>] @
        [\<lparr>typed = ''ab'', pick = 0, time1 = 10, time2 = 12\<rparr>]) = Next s' \<and>
       last (stdout s') = Colored (Correct (real (length ''ab'') / (12 - 10))) ''green'')"
  using wrong_answer_clock
    [of "\<lparr>typed = ''ba'', pick = 0, time1 = 7, time2 = 8\<rparr>"
      "\<lparr>words = [''ab\<newline>''], succ_cnt = 0, cur_word = ''ab'',
        stdout = [], start_time = 0, inputbox = [],
        question = Shown ''ab'' ''No translation found.'', result = Blank, result_style = []\<rparr>"
      "\<lambda>url. Inr []"]
    wrong_answer_clock
    [of "\<lparr>typed = ''ab'', pick = 0, time1 = 10, time2 = 12\<rparr>" _ "\<lambda>url. Inr []"
      "[\<lparr>typed = ''ba'', pick = 0, time1 = 0, time2 = 0\<rparr>,
        \<lparr>typed = ''a'', pick = 0, time1 = 5, time2 = 5\<rparr>]"
      "\<lparr>words = [''ab\<newline>''], succ_cnt = 0, cur_word = ''ab'', stdout = []\<rparr>"
      "Some ''No translation found.''" "''ab''"]
  by (simp add: draw_eval crawl_eval)

subsection \<open>Wrong input\<close>

text \<open>
  C4, as stated: an input that is neither the current word nor \<^verbatim>\<open>finish practice\<close>
  leaves \<open>cur_word\<close> and \<open>succ_cnt\<close> unchanged. In the window it does not when the input
  differs from the word by surrounding whitespace only: the input is stripped before it
  is compared, and the answer counts.
\<close>

theorem window_strips_input:
  "gui_session (\<lambda>url. Inr []) [''hello\<newline>''] 0 0
     [\<lparr>typed = ''hello '', pick = 0, time1 = 1, time2 = 2\<rparr>] =
   Next \<lparr>words = [''hello\<newline>''], succ_cnt = 1, cur_word = ''hello'',
     stdout = [], start_time = 2, inputbox = [],
     question = Shown ''hello'' ''No translation found.'',
     result = Correct 5, result_style = ''color: green''\<rparr> \<and>
   ''hello '' \<noteq> ''hello'' \<and> ''hello '' \<noteq> ''finish practice''"
  by (simp add: gui_session_def MyWindow_def round_eval)

text \<open>
  C4, amended: any number of inputs that, as the front end compares them (stripped in
  the window, as typed in the terminal), are neither the current word nor
  \<^verbatim>\<open>finish practice\<close> leave \<open>cur_word\<close> and \<open>succ_cnt\<close> unchanged; the session goes on.
  In the terminal the word is printed again before each input, so its translation has
  to be fetched without an exception.
\<close>

theorem wrong_input_idempotent:
  "((\<forall>ev \<in> set evs. strip (typed ev) \<noteq> cur_word g \<and> strip (typed ev) \<noteq> ''finish practice'') \<longrightarrow>
      (\<exists>g'. gui_run http g evs = Next g' \<and> cur_word g' = cur_word g \<and>
            succ_cnt g' = succ_cnt g)) \<and>
   ((\<forall>ev \<in> set evs. typed ev \<noteq> cur_word s \<and> typed ev \<noteq> ''finish practice'') \<longrightarrow>
      crawl_translation http (cur_word s) = Inr tr \<longrightarrow>
      (\<exists>s'. terminal_run http s evs = Next s' \<and> cur_word s' = cur_word s \<and>
            succ_cnt s' = succ_cnt s))"
proof (intro conjI impI)
  assume "\<forall>ev \<in> set evs. strip (typed ev) \<noteq> cur_word g \<and> strip (typed ev) \<noteq> ''finish practice''"
  from gui_wrong_run [OF this, of http]
  show "\<exists>g'. gui_run http g evs = Next g' \<and> cur_word g' = cur_word g \<and> succ_cnt g' = succ_cnt g"
    by blast
next
  assume "\<forall>ev \<in> set evs. typed ev \<noteq> cur_word s \<and> typed ev \<noteq> ''finish practice''"
    "crawl_translation http (cur_word s) = Inr tr"
  from terminal_wrong_run [OF this]
  show "\<exists>s'. terminal_run http s evs = Next s' \<and> cur_word s' = cur_word s \<and>
            succ_cnt s' = succ_cnt s"
    by blast
qed

theorem wrong_input_idempotent_witness:
  "(\<exists>g'. gui_run (\<lambda>url. Inr [])
       \<lparr>words = [''hello\<newline>''], succ_cnt = 2, cur_word = ''hello'',
        stdout = [], start_time = 0, inputbox = [],
        question = Shown ''hello'' ''No translation found.'', result = Blank, result_style = []\<rparr>
       [\<lparr>typed = ''helo'', pick = 0, time1 = 1, time2 = 2\<rparr>,
        \<lparr>typed = ''hello!'', pick = 0, time1 = 3, time2 = 4\<rparr>] = Next g' \<and>
       cur_word g' = ''hello'' \<and> succ_cnt g' = 2) \<and>
   (\<exists>s'. terminal_run (\<lambda>url. Inr [])
       \<lparr>words = [''hello\<newline>''], succ_cnt = 2, cur_word = ''hello'', stdout = []\<rparr>
       [\<lparr>typed = ''helo'', pick = 0, time1 = 1, time2 = 2\<rparr>,
        \<lparr>typed = ''hello '', pick = 0, time1 = 3, time2 = 4\<rparr>] = Next s' \<and>
       cur_word s' = ''hello'' \<and> succ_cnt s' = 2)"
  using wrong_input_idempotent
    [of "[\<lparr>typed = ''helo'', pick = 0, time1 = 1, time2 = 2\<rparr>,
          \<lparr>typed = ''hello!'', pick = 0, time1 = 3, time2 = 4\<rparr>]"
      "\<lparr>words = [''hello\<newline>''], succ_cnt = 2, cur_word = ''hello'',
        stdout = [], start_time = 0, inputbox = [],
        question = Shown ''hello'' ''No translation found.'', result = Blank, result_style = []\<rparr>"
      "\<lambda>url. Inr []"]
    wrong_input_idempotent
    [of "[\<lparr>typed = ''helo'', pick = 0, time1 = 1, time2 = 2\<rparr>,
          \<lparr>typed = ''hello '', pick = 0, time1 = 3, time2 = 4\<rparr>]"
      _ "\<lambda>url. Inr []"
      "\<lparr>words = [''hello\<newline>''], succ_cnt = 2, cur_word = ''hello'', stdout = []\<rparr>"
      "Some ''No translation found.''"]
  by (simp add: strip_eval crawl_eval)

subsection \<open>The current word\<close>

text \<open>
  C5: in every state that either front end reaches from its start, after any sequence of
  rounds, the current word is a trimmed entry of the word list, and so is every word
  presented (the word in the question label, the words in the printed lines). For a word
  list with a single entry it is that entry, trimmed.
\<close>

theorem current_word_member:
  "(MyWindow http ws r now = Inr g0 \<longrightarrow>
      gui_run http g0 evs = Next g \<or> gui_run http g0 evs = Exited g \<longrightarrow>
      cur_word g \<in> strip ` set ws \<and> (\<exists>tr. question g = Shown (cur_word g) tr) \<and>
      (\<forall>w. ws = [w] \<longrightarrow> cur_word g = strip w)) \<and>
   (terminal_start ws r = Inr s0 \<longrightarrow>
      terminal_run http s0 evs = Next s \<or> terminal_run http s0 evs = Exited s \<longrightarrow>
      cur_word s \<in> strip ` set ws \<and> set (presented (stdout s)) \<subseteq> strip ` set ws \<and>
      (\<forall>w. ws = [w] \<longrightarrow> cur_word s = strip w \<and> set (presented (stdout s)) \<subseteq> {strip w}))"
proof (intro conjI impI)
  assume init: "MyWindow http ws r now = Inr g0"
    and run: "gui_run http g0 evs = Next g \<or> gui_run http g0 evs = Exited g"
  from init obtain w q t where f: "fetch_word http ws r now = Inr (w, q, t)"
    and g0: "words g0 = ws" "cur_word g0 = w" "question g0 = q"
    by (auto simp: MyWindow_def split: sum.splits)
  from fetch_word_Inr [OF f] draw_word_mem g0
  have "cur_word g0 \<in> strip ` set ws" "\<exists>tr. question g0 = Shown (cur_word g0) tr"
    by auto
  with gui_run_keeps [OF run] g0(1)
  show mem: "cur_word g \<in> strip ` set ws" and "\<exists>tr. question g = Shown (cur_word g) tr"
    by auto
  from mem show "\<forall>w. ws = [w] \<longrightarrow> cur_word g = strip w"
    by auto
next
  assume init: "terminal_start ws r = Inr s0"
    and run: "terminal_run http s0 evs = Next s \<or> terminal_run http s0 evs = Exited s"
  from init obtain w where d: "draw_word ws r = Inr w"
    and s0: "words s0 = ws" "cur_word s0 = w" "stdout s0 = []"
    by (auto simp: terminal_start_def split: sum.splits)
  from draw_word_mem [OF d] s0 have "cur_word s0 \<in> strip ` set ws"
    by simp
  with terminal_run_keeps [OF run] s0
  show mem: "cur_word s \<in> strip ` set ws" and pres: "set (presented (stdout s)) \<subseteq> strip ` set ws"
    by auto
  from mem pres
  show "\<forall>w. ws = [w] \<longrightarrow> cur_word s = strip w \<and> set (presented (stdout s)) \<subseteq> {strip w}"
    by auto
qed

theorem current_word_member_witness:
  "MyWindow (\<lambda>url. Inr []) [''hi \<newline>''] 5 0 =
     Inr \<lparr>words = [''hi \<newline>''], succ_cnt = 0, cur_word = ''hi'', stdout = [],
          start_time = 0, inputbox = [], question = Shown ''hi'' ''No translation found.'',
          result = Blank, result_style = []\<rparr> \<and>
   gui_run (\<lambda>url. Inr [])
     \<lparr>words = [''hi \<newline>''], succ_cnt = 0, cur_word = ''hi'', stdout = [],
      start_time = 0, inputbox = [], question = Shown ''hi'' ''No translation found.'',
      result = Blank, result_style = []\<rparr>
     [\<lparr>typed = ''hi'', pick = 3, time1 = 1, time2 = 2\<rparr>] =
     Next \<lparr>words = [''hi \<newline>''], succ_cnt = 1, cur_word = ''hi'', stdout = [],
          start_time = 2, inputbox = [], question = Shown ''hi'' ''No translation found.'',
          result = Correct 2, result_style = ''color: green''\<rparr> \<and>
   ''hi'' \<in> strip ` set [''hi \<newline>''] \<and>
   terminal_start [''hi \<newline>''] 5 =
     Inr \<lparr>words = [''hi \<newline>''], succ_cnt = 0, cur_word = ''hi'', stdout = []\<rparr> \<and>
   terminal_run (\<lambda>url. Inr [])
     \<lparr>words = [''hi \<newline>''], succ_cnt = 0, cur_word = ''hi'', stdout = []\<rparr>
     [\<lparr>typed = ''hi'', pick = 3, time1 = 1, time2 = 2\<rparr>] =
     Next \<lparr>words = [''hi \<newline>''], succ_cnt = 1, cur_word = ''hi'',
          stdout = [Colored (Shown ''hi'' ''No translation found.'') ''blue'',
                    Colored (Correct 2) ''green'']\<rparr> \<and>
   set (presented [Colored (Shown ''hi'' ''No translation found.'') ''blue'',
                   Colored (Correct 2) ''green'']) \<subseteq> {strip ''hi \<newline>''}"
  using current_word_member
    [of "\<lambda>url. Inr []" "[''hi \<newline>'']" 5 0
      "\<lparr>words = [''hi \<newline>''], succ_cnt = 0, cur_word = ''hi'', stdout = [],
        start_time = 0, inputbox = [], question = Shown ''hi'' ''No translation found.'',
        result = Blank, result_style = []\<rparr>"
      "[\<lparr>typed = ''hi'', pick = 3, time1 = 1, time2 = 2\<rparr>]"
      "\<lparr>words = [''hi \<newline>''], succ_cnt = 1, cur_word = ''hi'', stdout = [],
          start_time = 2, inputbox = [], question = Shown ''hi'' ''No translation found.'',
          result = Correct 2, result_style = ''color: green''\<rparr>"
      "\<lparr>words = [''hi \<newline>''], succ_cnt = 0, cur_word = ''hi'', stdout = []\<rparr>"
      "\<lparr>words = [''hi \<newline>''], succ_cnt = 1, cur_word = ''hi'',
          stdout = [Colored (Shown ''hi'' ''No translation found.'') ''blue'',
                    Colored (Correct 2) ''green'']\<rparr>"]
  by (simp add: MyWindow_def terminal_start_def round_eval)

subsection \<open>The exit command\<close>

text \<open>
  C6, as stated: in every session state the input \<^verbatim>\<open>finish practice\<close> makes the front end
  exit. The window does not when the current word is \<^verbatim>\<open>finish practice\<close>: the comparison
  with the word comes first, the answer counts and the window stays open.
\<close>

theorem window_stays_open_on_its_word:
  "gui_session (\<lambda>url. Inr []) [''finish practice\<newline>''] 0 0
     [\<lparr>typed = ''finish practice'', pick = 0, time1 = 1, time2 = 2\<rparr>] =
   Next \<lparr>words = [''finish practice\<newline>''], succ_cnt = 1, cur_word = ''finish practice'',
     stdout = [], start_time = 2, inputbox = [],
     question = Shown ''finish practice'' ''No translation found.'',
     result = Correct 15, result_style = ''color: green''\<rparr>"
  by (simp add: gui_session_def MyWindow_def round_eval)

text \<open>
  C6, amended: on the input \<^verbatim>\<open>finish practice\<close> the terminal loop exits at every prompt
  and the window closes unless its current word is \<^verbatim>\<open>finish practice\<close>. The farewell
  message reports \<open>succ_cnt\<close>, and the word list, the current word, the count and the
  window's start time are unchanged: only the output (and in the window the input box
  and the colour of the result label) changes.
\<close>

theorem finish_practice_exits:
  "(typed ev = ''finish practice'' \<longrightarrow> cur_word g \<noteq> ''finish practice'' \<longrightarrow>
      gui_input http g ev =
        Exited (g\<lparr>inputbox := [], result_style := ''color: yellow'',
                   stdout := stdout g @ [Plain (Practiced (succ_cnt g) (plural (succ_cnt g)))]\<rparr>)) \<and>
   (typed ev = ''finish practice'' \<longrightarrow> crawl_translation http (cur_word s) = Inr tr \<longrightarrow>
      terminal_iteration http s ev =
        Exited (s\<lparr>stdout := stdout s @
          [Colored (Shown (cur_word s) (py_str tr)) ''blue'',
           Colored (Practiced (succ_cnt s) (plural (succ_cnt s))) ''yellow'']\<rparr>))"
  by (auto simp: gui_input_eq terminal_iteration_eq strip_finish)

theorem finish_practice_exits_witness:
  "gui_input (\<lambda>url. Inr [])
     \<lparr>words = [''hello\<newline>''], succ_cnt = 2, cur_word = ''hello'',
      stdout = [], start_time = 0, inputbox = [],
      question = Shown ''hello'' ''No translation found.'', result = Blank, result_style = []\<rparr>
     \<lparr>typed = ''finish practice'', pick = 0, time1 = 1, time2 = 2\<rparr> =
   Exited \<lparr>words = [''hello\<newline>''], succ_cnt = 2, cur_word = ''hello'',
      stdout = [Plain (Practiced 2 ''s'')], start_time = 0, inputbox = [],
      question = Shown ''hello'' ''No translation found.'', result = Blank,
      result_style = ''color: yellow''\<rparr> \<and>
   terminal_iteration (\<lambda>url. Inr [])
     \<lparr>words = [''hello\<newline>''], succ_cnt = 1, cur_word = ''hello'', stdout = []\<rparr>
     \<lparr>typed = ''finish practice'', pick = 0, time1 = 1, time2 = 2\<rparr> =
   Exited \<lparr>words = [''hello\<newline>''], succ_cnt = 1, cur_word = ''hello'',
      stdout = [Colored (Shown ''hello'' ''No translation found.'') ''blue'',
                Colored (Practiced 1 []) ''yellow'']\<rparr>"
  using finish_practice_exits
    [of "\<lparr>typed = ''finish practice'', pick = 0, time1 = 1, time2 = 2\<rparr>"
      "\<lparr>words = [''hello\<newline>''], succ_cnt = 2, cur_word = ''hello'',
        stdout = [], start_time = 0, inputbox = [],
        question = Shown ''hello'' ''No translation found.'', result = Blank, result_style = []\<rparr>"
      "\<lambda>url. Inr []"
      "\<lparr>words = [''hello\<newline>''], succ_cnt = 1, cur_word = ''hello'', stdout = []\<rparr>"
      "Some ''No translation found.''"]
  by (simp add: crawl_eval plural_def)

text \<open>
  C9: when the current word is \<^verbatim>\<open>finish practice\<close> and that text is entered, the window
  never exits: it takes the answer as correct, and when the round completes \<open>succ_cnt\<close> is
  one more and a new word is drawn. The terminal loop exits, with \<open>succ_cnt\<close> and the word
  unchanged.
\<close>

theorem finish_practice_as_word:
  "(cur_word g = ''finish practice'' \<longrightarrow> typed ev = ''finish practice'' \<longrightarrow>
      (\<forall>g'. gui_input http g ev \<noteq> Exited g') \<and>
      (time1 ev \<noteq> start_time g \<longrightarrow>
       fetch_word http (words g) (pick ev) (time2 ev) = Inr (w, q, t) \<longrightarrow>
       (\<exists>g'. gui_input http g ev = Next g' \<and> succ_cnt g' = succ_cnt g + 1 \<and>
             cur_word g' = w \<and> draw_word (words g) (pick ev) = Inr w))) \<and>
   (cur_word s = ''finish practice'' \<longrightarrow> typed ev = ''finish practice'' \<longrightarrow>
      crawl_translation http (cur_word s) = Inr tr \<longrightarrow>
      (\<exists>s'. terminal_iteration http s ev = Exited s' \<and> succ_cnt s' = succ_cnt s \<and>
            cur_word s' = cur_word s))"
proof (intro conjI impI allI)
  fix g'
  assume "cur_word g = ''finish practice''" "typed ev = ''finish practice''"
  then have "strip (typed ev) = cur_word g" by (simp add: strip_finish)
  with gui_input_Exited [of http g ev g'] show "gui_input http g ev \<noteq> Exited g'"
    by blast
next
  assume "cur_word g = ''finish practice''" "typed ev = ''finish practice''"
    "time1 ev \<noteq> start_time g"
    and f: "fetch_word http (words g) (pick ev) (time2 ev) = Inr (w, q, t)"
  with fetch_word_Inr [OF f]
  show "\<exists>g'. gui_input http g ev = Next g' \<and> succ_cnt g' = succ_cnt g + 1 \<and>
             cur_word g' = w \<and> draw_word (words g) (pick ev) = Inr w"
    by (simp add: gui_input_eq strip_finish)
next
  assume "cur_word s = ''finish practice''" "typed ev = ''finish practice''"
    "crawl_translation http (cur_word s) = Inr tr"
  then show "\<exists>s'. terminal_iteration http s ev = Exited s' \<and> succ_cnt s' = succ_cnt s \<and>
            cur_word s' = cur_word s"
    by (simp add: terminal_iteration_eq)
qed

theorem finish_practice_as_word_witness:
  "(\<exists>g'. gui_input (\<lambda>url. Inr [])
       \<lparr>words = [''finish practice\<newline>'', ''hello\<newline>''], succ_cnt = 0,
        cur_word = ''finish practice'', stdout = [], start_time = 0, inputbox = [],
        question = Shown ''finish practice'' ''No translation found.'', result = Blank,
        result_style = []\<rparr>
       \<lparr>typed = ''finish practice'', pick = 1, time1 = 3, time2 = 4\<rparr> = Next g' \<and>
       succ_cnt g' = 0 + 1 \<and> cur_word g' = ''hello'') \<and>
   (\<exists>s'. terminal_iteration (\<lambda>url. Inr [])
       \<lparr>words = [''finish practice\<newline>'', ''hello\<newline>''], succ_cnt = 0,
        cur_word = ''finish practice'', stdout = []\<rparr>
       \<lparr>typed = ''finish practice'', pick = 1, time1 = 3, time2 = 4\<rparr> = Exited s' \<and>
       succ_cnt s' = 0 \<and> cur_word s' = ''finish practice'')"
  using finish_practice_as_word
    [of "\<lparr>words = [''finish practice\<newline>'', ''hello\<newline>''], succ_cnt = 0,
        cur_word = ''finish practice'', stdout = [], start_time = 0, inputbox = [],
        question = Shown ''finish practice'' ''No translation found.'', result = Blank,
        result_style = []\<rparr>"
      "\<lparr>typed = ''finish practice'', pick = 1, time1 = 3, time2 = 4\<rparr>"
      "\<lambda>url. Inr []" "''hello''" "Shown ''hello'' ''No translation found.''" 4
      "\<lparr>words = [''finish practice\<newline>'', ''hello\<newline>''], succ_cnt = 0,
        cur_word = ''finish practice'', stdout = []\<rparr>"
      "Some ''No translation found.''"]
  by (simp add: fetch_word_def draw_eval crawl_eval)

subsection \<open>Surrounding whitespace\<close>

text \<open>
  C10: for an input that differs from the current word by surrounding whitespace only,
  the window counts the answer as correct (\<open>succ_cnt\<close> is one more when the round
  completes), while the terminal, with the same current word, reports a wrong answer and
  changes nothing but its output. There is such an input for every trimmed word: the
  word followed by a space.
\<close>

theorem surrounding_whitespace:
  "(strip (typed ev) = cur_word g \<longrightarrow> typed ev \<noteq> cur_word g \<longrightarrow> cur_word s = cur_word g \<longrightarrow>
      (time1 ev \<noteq> start_time g \<longrightarrow>
       fetch_word http (words g) (pick ev) (time2 ev) = Inr (w, q, t) \<longrightarrow>
       (\<exists>g'. gui_input http g ev = Next g' \<and> succ_cnt g' = succ_cnt g + 1)) \<and>
      (crawl_translation http (cur_word s) = Inr tr \<longrightarrow>
       terminal_iteration http s ev =
         Next (s\<lparr>stdout := stdout s @
           [Colored (Shown (cur_word s) (py_str tr)) ''blue'', Colored Wrong ''red'']\<rparr>))) \<and>
   (strip (cur_word g) = cur_word g \<longrightarrow>
      strip (cur_word g @ '' '') = cur_word g \<and> cur_word g @ '' '' \<noteq> cur_word g)"
proof (intro conjI impI)
  assume "strip (typed ev) = cur_word g" "time1 ev \<noteq> start_time g"
    "fetch_word http (words g) (pick ev) (time2 ev) = Inr (w, q, t)"
  then show "\<exists>g'. gui_input http g ev = Next g' \<and> succ_cnt g' = succ_cnt g + 1"
    by (simp add: gui_input_eq)
next
  assume a: "strip (typed ev) = cur_word g" "typed ev \<noteq> cur_word g" "cur_word s = cur_word g"
    "crawl_translation http (cur_word s) = Inr tr"
  have "typed ev \<noteq> ''finish practice''"
  proof
    assume "typed ev = ''finish practice''"
    with a(1) have "typed ev = cur_word g" by (simp add: strip_finish)
    with a(2) show False by simp
  qed
  with a show "terminal_iteration http s ev =
         Next (s\<lparr>stdout := stdout s @
           [Colored (Shown (cur_word s) (py_str tr)) ''blue'', Colored Wrong ''red'']\<rparr>)"
    by (simp add: terminal_iteration_eq)
next
  assume "strip (cur_word g) = cur_word g"
  then show "strip (cur_word g @ '' '') = cur_word g"
    by (rule strip_append_space)
next
  show "cur_word g @ '' '' \<noteq> cur_word g" by simp
qed

theorem surrounding_whitespace_witness:
  "(\<exists>g'. gui_input (\<lambda>url. Inr [])
       \<lparr>words = [''hello\<newline>''], succ_cnt = 0, cur_word = ''hello'', stdout = [],
        start_time = 0, inputbox = [], question = Shown ''hello'' ''No translation found.'',
        result = Blank, result_style = []\<rparr>
       \<lparr>typed = '' hello '', pick = 0, time1 = 3, time2 = 4\<rparr> = Next g' \<and>
       succ_cnt g' = 0 + 1) \<and>
   terminal_iteration (\<lambda>url. Inr [])
       \<lparr>words = [''hello\<newline>''], succ_cnt = 0, cur_word = ''hello'', stdout = []\<rparr>
       \<lparr>typed = '' hello '', pick = 0, time1 = 3, time2 = 4\<rparr> =
     Next \<lparr>words = [''hello\<newline>''], succ_cnt = 0, cur_word = ''hello'',
          stdout = [Colored (Shown ''hello'' ''No translation found.'') ''blue'',
                    Colored Wrong ''red'']\<rparr> \<and>
   strip (''hello'' @ '' '') = ''hello''"
  using surrounding_whitespace
    [of "\<lparr>typed = '' hello '', pick = 0, time1 = 3, time2 = 4\<rparr>"
      "\<lparr>words = [''hello\<newline>''], succ_cnt = 0, cur_word = ''hello'', stdout = [],
        start_time = 0, inputbox = [], question = Shown ''hello'' ''No translation found.'',
        result = Blank, result_style = []\<rparr>"
      "\<lparr>words = [''hello\<newline>''], succ_cnt = 0, cur_word = ''hello'', stdout = []\<rparr>"
      "\<lambda>url. Inr []" "''hello''" "Shown ''hello'' ''No translation found.''" 4
      "Some ''No translation found.''"]
  by (simp add: fetch_word_def draw_eval crawl_eval)

end
